theory Spec2Isabelle
  imports Complex_Main "HOL-Library.Multiset"
begin

section \<open>Values, errors and the numeric library\<close>

text \<open>
  The two scripts work on decoded JSON documents and on numpy arrays of floats.
  A float is modelled as the real number it denotes, or as \<open>NaN\<close>; the infinities are
  not modelled. The statistics are first given as the formulas they evaluate, in exact
  arithmetic; the mean is then given a second time with the rounding of float64, for the
  properties that rounding decides. Python exceptions are values of the type \<open>error\<close>,
  and a computation that may raise returns \<open>error + 'a\<close>.
\<close>

datatype error = ZeroDivisionError | ValueError | KeyError | IndexError

datatype pyfloat = Fin real | NaN


text \<open>Python's \<open>/\<close> on floats raises on a zero divisor.\<close>

definition py_truediv :: "real \<Rightarrow> real \<Rightarrow> error + real" where
  "py_truediv a b = (if b = 0 then Inl ZeroDivisionError else Inr (a / b))"

subsection \<open>numpy reductions, as documented by the library\<close>

text \<open>
  \<open>arr.mean()\<close> adds the elements up and divides by their number; on an empty array it
  yields NaN. \<open>np_sum\<close> and \<open>np_mean\<close> are that formula in exact arithmetic; the float64
  evaluation is \<open>np_sum_f64\<close> and \<open>np_mean_f64\<close> below. \<open>arr.min()\<close> and \<open>arr.max()\<close>
  reduce with the binary minimum and maximum and raise on an empty array.
\<close>

definition np_sum :: "real list \<Rightarrow> real" where
  "np_sum arr = foldl (+) 0 arr"

definition np_mean :: "real list \<Rightarrow> pyfloat" where
  "np_mean arr = (if arr = [] then NaN else Fin (np_sum arr / real (length arr)))"

fun np_min :: "real list \<Rightarrow> error + pyfloat" where
  "np_min [] = Inl ValueError"
| "np_min (x # xs) = Inr (Fin (foldl min x xs))"

fun np_max :: "real list \<Rightarrow> error + pyfloat" where
  "np_max [] = Inl ValueError"
| "np_max (x # xs) = Inr (Fin (foldl max x xs))"

text \<open>
  \<open>np.quantile(arr, q)\<close> with the default method: the array is sorted, the virtual index
  is \<open>(n - 1) * q\<close>, the two neighbouring positions are its floor and the one after
  (both the last position when the virtual index reaches it), and the result is numpy's
  two-sided linear interpolation between the values there. A quantile outside [0, 1]
  raises; the reduction of an empty array is taken to raise as well.
\<close>

definition lerp :: "real \<Rightarrow> real \<Rightarrow> real \<Rightarrow> real" where
  "lerp a b t = (if 1 / 2 \<le> t then b - (b - a) * (1 - t) else a + (b - a) * t)"

definition np_quantile :: "real list \<Rightarrow> real \<Rightarrow> error + pyfloat" where
  "np_quantile arr q =
     (if q < 0 \<or> 1 < q then Inl ValueError
      else if arr = [] then Inl IndexError
      else
        let a = sort arr;
            n = length a;
            virtual_index = real (n - 1) * q;
            above = (real (n - 1) \<le> virtual_index);
            previous_index = (if above then n - 1 else nat \<lfloor>virtual_index\<rfloor>);
            next_index = (if above then n - 1 else nat \<lfloor>virtual_index\<rfloor> + 1);
            gamma = virtual_index - real_of_int \<lfloor>virtual_index\<rfloor>
        in Inr (Fin (lerp (a ! previous_index) (a ! next_index) gamma)))"

section \<open>Telemetry documents\<close>

text \<open>
  A decoded result file. Every key the scripts read with \<open>.get(key, default)\<close> or test
  with \<open>in\<close> is optional; \<open>metrics\<close> maps a metric name to its list of samples, and
  \<open>summary\<close> holds the precomputed totals and per-metric statistics.
\<close>

record point =
  timestamp :: int
  val :: real

record summary_rec =
  samples :: "int option"
  duration :: "int option"
  metric_stats :: "string \<rightharpoonup> (string \<rightharpoonup> real)"

record session =
  interval :: "int option"
  metrics :: "(string \<rightharpoonup> point list) option"
  summary :: "summary_rec option"

section \<open>overall_comparison.py\<close>

definition METRIC_KEYS :: "string list" where
  "METRIC_KEYS = [''latency'', ''jitter'', ''packetLoss'', ''bitrate'', ''frameRate'']"

text \<open>
  The inner loop of \<open>aggregate_metrics\<close>: for each key, skip it when the file's metrics
  lack it, else extend \<open>metrics[key]\<close> by the values of the file's samples.
  \<open>metrics[key]\<close> raises KeyError when the accumulator has no such key.
\<close>

fun extend_keys ::
  "(string \<rightharpoonup> point list) \<Rightarrow> string list \<Rightarrow> (string \<rightharpoonup> real list) \<Rightarrow> error + (string \<rightharpoonup> real list)" where
  "extend_keys m [] acc = Inr acc"
| "extend_keys m (key # keys) acc =
     (case m key of
        None \<Rightarrow> extend_keys m keys acc
      | Some pts \<Rightarrow>
          (case acc key of
             None \<Rightarrow> Inl KeyError
           | Some vs \<Rightarrow> extend_keys m keys (acc(key \<mapsto> vs @ map val pts))))"

text \<open>\<open>data.get("metrics", {})\<close> and \<open>data.get("summary", {})\<close>.\<close>

definition get_metrics :: "session \<Rightarrow> (string \<rightharpoonup> point list)" where
  "get_metrics data = (case metrics data of None \<Rightarrow> Map.empty | Some m \<Rightarrow> m)"

definition get_samples :: "session \<Rightarrow> int option" where
  "get_samples data = (case summary data of None \<Rightarrow> None | Some s \<Rightarrow> samples s)"

definition get_duration :: "session \<Rightarrow> int option" where
  "get_duration data = (case summary data of None \<Rightarrow> None | Some s \<Rightarrow> duration s)"

text \<open>
  The outer loop over the files, on the state
  \<open>(metrics, total_samples, total_duration_ms)\<close>.
\<close>

fun aggregate_loop ::
  "session list \<Rightarrow> (string \<rightharpoonup> real list) \<times> int \<times> int \<Rightarrow> error + (string \<rightharpoonup> real list) \<times> int \<times> int" where
  "aggregate_loop [] st = Inr st"
| "aggregate_loop (data # files) (acc, total_samples, total_duration_ms) =
     (let m = get_metrics data in
      case extend_keys m METRIC_KEYS acc of
        Inl e \<Rightarrow> Inl e
      | Inr acc' \<Rightarrow>
          aggregate_loop files
            (acc',
             total_samples +
               (case get_samples data of
                  Some n \<Rightarrow> n
                | None \<Rightarrow> int (length (case m ''latency'' of None \<Rightarrow> [] | Some pts \<Rightarrow> pts))),
             total_duration_ms + (case get_duration data of Some d \<Rightarrow> d | None \<Rightarrow> 0)))"

definition aggregate_metrics ::
  "session list \<Rightarrow> error + (string \<rightharpoonup> real list) \<times> int \<times> int" where
  "aggregate_metrics files =
     aggregate_loop files (map_of (map (\<lambda>k. (k, [])) METRIC_KEYS), 0, 0)"

record stats =
  mean :: pyfloat
  p50 :: pyfloat
  p95 :: pyfloat
  p99 :: pyfloat
  min' :: pyfloat
  max' :: pyfloat
  count' :: int

definition compute_stats :: "real list \<Rightarrow> error + stats" where
  "compute_stats arr =
     (if length arr = 0 then
        Inr \<lparr>mean = NaN, p50 = NaN, p95 = NaN, p99 = NaN, min' = NaN, max' = NaN, count' = 0\<rparr>
      else
        case np_quantile arr (50 / 100) of Inl e \<Rightarrow> Inl e | Inr q50 \<Rightarrow>
        case np_quantile arr (95 / 100) of Inl e \<Rightarrow> Inl e | Inr q95 \<Rightarrow>
        case np_quantile arr (99 / 100) of Inl e \<Rightarrow> Inl e | Inr q99 \<Rightarrow>
        case np_min arr of Inl e \<Rightarrow> Inl e | Inr lo \<Rightarrow>
        case np_max arr of Inl e \<Rightarrow> Inl e | Inr hi \<Rightarrow>
          Inr \<lparr>mean = np_mean arr, p50 = q50, p95 = q95, p99 = q99,
               min' = lo, max' = hi, count' = int (length arr)\<rparr>)"

text \<open>
  \<open>build_bar_data\<close> puts the mean, p95 and p99 of both configurations into two float
  arrays; \<open>metrics[metric_key]\<close> raises KeyError on a missing key.
\<close>

definition build_bar_data ::
  "(string \<rightharpoonup> real list) \<Rightarrow> (string \<rightharpoonup> real list) \<Rightarrow> string \<Rightarrow> error + pyfloat list \<times> pyfloat list" where
  "build_bar_data baseline_metrics e2ee_metrics metric_key =
     (case baseline_metrics metric_key of None \<Rightarrow> Inl KeyError | Some b_arr \<Rightarrow>
      case compute_stats b_arr of Inl e \<Rightarrow> Inl e | Inr b_stats \<Rightarrow>
      case e2ee_metrics metric_key of None \<Rightarrow> Inl KeyError | Some e_arr \<Rightarrow>
      case compute_stats e_arr of Inl e \<Rightarrow> Inl e | Inr e_stats \<Rightarrow>
        Inr ([mean b_stats, p95 b_stats, p99 b_stats], [mean e_stats, p95 e_stats, p99 e_stats]))"

section \<open>analyze_performance.py\<close>






text \<open>
  The numerical comparison at the end of \<open>compare_two_tests\<close>. A mean is read as
  \<open>float(summary.get(metric, {}).get('mean', 0))\<close> from \<open>data.get('summary', {})\<close>.
\<close>

record comparison =
  metric :: string
  b_mean :: real
  e_mean :: real
  diff :: real
  pct :: real

definition get_mean :: "session \<Rightarrow> string \<Rightarrow> real" where
  "get_mean data metric_name =
     (case summary data of
        None \<Rightarrow> 0
      | Some s \<Rightarrow>
          (case metric_stats s metric_name of
             None \<Rightarrow> 0
           | Some st \<Rightarrow> (case st ''mean'' of None \<Rightarrow> 0 | Some v \<Rightarrow> v)))"

definition compare_metric :: "session \<Rightarrow> session \<Rightarrow> string \<Rightarrow> error + comparison" where
  "compare_metric baseline e2ee metric_name =
     (let b = get_mean baseline metric_name;
          e = get_mean e2ee metric_name;
          d = e - b
      in if 0 < b then
           (case py_truediv d b of
              Inl err \<Rightarrow> Inl err
            | Inr r \<Rightarrow> Inr \<lparr>metric = metric_name, b_mean = b, e_mean = e, diff = d, pct = r * 100\<rparr>)
         else Inr \<lparr>metric = metric_name, b_mean = b, e_mean = e, diff = d, pct = 0\<rparr>)"

fun compare_loop :: "session \<Rightarrow> session \<Rightarrow> string list \<Rightarrow> error + comparison list" where
  "compare_loop baseline e2ee [] = Inr []"
| "compare_loop baseline e2ee (metric_name # names) =
     (case compare_metric baseline e2ee metric_name of
        Inl err \<Rightarrow> Inl err
      | Inr c \<Rightarrow>
          (case compare_loop baseline e2ee names of
             Inl err \<Rightarrow> Inl err
           | Inr cs \<Rightarrow> Inr (c # cs)))"

definition compare_two_tests :: "session \<Rightarrow> session \<Rightarrow> error + comparison list" where
  "compare_two_tests baseline e2ee =
     compare_loop baseline e2ee [''latency'', ''jitter'', ''packetLoss'', ''bitrate'']"

section \<open>Interfaces and reference definitions\<close>

text \<open>
  The values one file contributes to a metric (\<open>point["value"] for point in m[key]\<close>,
  nothing when the key is absent), and its contributions to the two totals.
\<close>

definition session_values :: "session \<Rightarrow> string \<Rightarrow> real list" where
  "session_values data key =
     (case get_metrics data key of None \<Rightarrow> [] | Some pts \<Rightarrow> map val pts)"

definition latency_length :: "session \<Rightarrow> int" where
  "latency_length data =
     int (length (case get_metrics data ''latency'' of None \<Rightarrow> [] | Some pts \<Rightarrow> pts))"

definition samples_of :: "session \<Rightarrow> int" where
  "samples_of data =
     (case get_samples data of
        Some n \<Rightarrow> n
      | None \<Rightarrow> int (length (case get_metrics data ''latency'' of None \<Rightarrow> [] | Some pts \<Rightarrow> pts)))"

definition duration_of :: "session \<Rightarrow> int" where
  "duration_of data = (case get_duration data of Some d \<Rightarrow> d | None \<Rightarrow> 0)"

text \<open>
  The two views of the result of \<open>aggregate_metrics\<close> that its callers use:
  \<open>metrics[metric_key]\<close>, as read by \<open>print_summary\<close> and \<open>build_bar_data\<close>, and the
  pair of totals.
\<close>

definition aggregate :: "session list \<Rightarrow> string \<Rightarrow> error + real list" where
  "aggregate files key =
     (case aggregate_metrics files of
        Inl e \<Rightarrow> Inl e
      | Inr (ms, total_samples, total_duration_ms) \<Rightarrow>
          (case ms key of None \<Rightarrow> Inl KeyError | Some vs \<Rightarrow> Inr vs))"

definition session_totals :: "session list \<Rightarrow> error + int \<times> int" where
  "session_totals files =
     (case aggregate_metrics files of
        Inl e \<Rightarrow> Inl e
      | Inr (ms, total_samples, total_duration_ms) \<Rightarrow> Inr (total_samples, total_duration_ms))"

text \<open>
  The session totals as the specification words them: both totals fall back to the
  length of the latency series.
\<close>

definition spec_session_totals :: "session list \<Rightarrow> int \<times> int" where
  "spec_session_totals sessions =
     (sum_list (map (\<lambda>s. case get_samples s of Some n \<Rightarrow> n | None \<Rightarrow> latency_length s) sessions),
      sum_list (map (\<lambda>s. case get_duration s of Some d \<Rightarrow> d | None \<Rightarrow> latency_length s) sessions))"

text \<open>
  The quantile as the specification words it: on the sorted copy of the values, of
  length \<open>n\<close>, the \<open>q\<close>-quantile lies at the virtual index \<open>q * (n - 1)\<close>; it is the sorted
  value there when the index is whole, and otherwise the linear interpolation between the
  two adjacent sorted values.
\<close>

definition interp :: "real list \<Rightarrow> real \<Rightarrow> real" where
  "interp s h =
     (let i = nat \<lfloor>h\<rfloor>; g = h - real_of_int \<lfloor>h\<rfloor>
      in if g = 0 then s ! i else s ! i + g * (s ! (i + 1) - s ! i))"

definition spec_quantile :: "real list \<Rightarrow> real \<Rightarrow> real" where
  "spec_quantile values q = interp (sort values) (q * real (length values - 1))"

section \<open>The mean in float64\<close>

text \<open>
  Where a claim orders or equates the mean with other statistics, the rounding of the
  float64 operations that produce it decides the claim, so the mean is also modelled with
  that rounding. A float64 operation returns the exact result rounded to the nearest
  value with 53 significant bits, ties going to the even neighbour; the binade of a value
  is \<open>\<lfloor>log\<^sub>2 \<bar>x\<bar>\<rfloor>\<close>, held at -1022 for the subnormal range. Overflow to infinity is
  left out.
\<close>

definition round_half_even :: "real \<Rightarrow> int" where
  "round_half_even r =
     (let f = \<lfloor>r\<rfloor>; d = r - real_of_int f
      in if d < 1 / 2 then f else if 1 / 2 < d then f + 1 else if even f then f else f + 1)"

definition f64_exponent :: "real \<Rightarrow> int" where
  "f64_exponent x = max \<lfloor>log 2 \<bar>x\<bar>\<rfloor> (- 1022)"

definition f64_round :: "real \<Rightarrow> real" where
  "f64_round x =
     (if x = 0 then 0
      else real_of_int (round_half_even (x / 2 powr real_of_int (f64_exponent x - 52)))
           * 2 powr real_of_int (f64_exponent x - 52))"

definition f64_add :: "real \<Rightarrow> real \<Rightarrow> real" where
  "f64_add a b = f64_round (a + b)"

text \<open>
  \<open>arr.mean()\<close> is numpy's \<open>add.reduce\<close> over the array divided by the number of elements.
  The reduction of a contiguous float64 array is numpy's pairwise summation: fewer than
  eight elements are added from left to right; up to 128 elements are added in eight
  interleaved accumulators, which are then combined in pairs, and the elements after the
  last full group of eight are added one by one; a longer array is split in two parts,
  the first a multiple of eight long, and the two sums are added. The result is added to
  the initial value 0.
\<close>

function pairwise_sum :: "real list \<Rightarrow> real" where
  "pairwise_sum a =
     (let n = length a in
      if n < 8 then foldl f64_add 0 a
      else if n \<le> 128 then
        (let m = n - n mod 8;
             r = foldl (\<lambda>r i. map2 f64_add r (take 8 (drop i a))) (take 8 a)
                       (map (\<lambda>j. 8 * j) [1..<m div 8]);
             res = f64_add (f64_add (f64_add (r ! 0) (r ! 1)) (f64_add (r ! 2) (r ! 3)))
                           (f64_add (f64_add (r ! 4) (r ! 5)) (f64_add (r ! 6) (r ! 7)))
         in foldl f64_add res (drop m a))
      else
        (let n2 = n div 2 - (n div 2) mod 8
         in f64_add (pairwise_sum (take n2 a)) (pairwise_sum (drop n2 a))))"
  by pat_completeness auto
termination
  by (relation "measure length") auto

declare pairwise_sum.simps [simp del]

definition np_sum_f64 :: "real list \<Rightarrow> real" where
  "np_sum_f64 arr = f64_add 0 (pairwise_sum arr)"

definition np_mean_f64 :: "real list \<Rightarrow> pyfloat" where
  "np_mean_f64 arr =
     (if arr = [] then NaN else Fin (f64_round (np_sum_f64 arr / real (length arr))))"

text \<open>
  \<open>compute_stats\<close> with the mean in float64; the percentiles, the extrema and the count
  are as in \<open>compute_stats\<close> above, the interpolation of the percentiles in exact
  arithmetic. \<open>aggregate_stats_f64\<close> is \<open>compute_stats(metrics[metric_key])\<close> on the
  result of \<open>aggregate_metrics\<close>, as \<open>print_summary\<close> and \<open>build_bar_data\<close> call it.
\<close>

definition compute_stats_f64 :: "real list \<Rightarrow> error + stats" where
  "compute_stats_f64 arr =
     (if length arr = 0 then
        Inr \<lparr>mean = NaN, p50 = NaN, p95 = NaN, p99 = NaN, min' = NaN, max' = NaN, count' = 0\<rparr>
      else
        case np_quantile arr (50 / 100) of Inl e \<Rightarrow> Inl e | Inr q50 \<Rightarrow>
        case np_quantile arr (95 / 100) of Inl e \<Rightarrow> Inl e | Inr q95 \<Rightarrow>
        case np_quantile arr (99 / 100) of Inl e \<Rightarrow> Inl e | Inr q99 \<Rightarrow>
        case np_min arr of Inl e \<Rightarrow> Inl e | Inr lo \<Rightarrow>
        case np_max arr of Inl e \<Rightarrow> Inl e | Inr hi \<Rightarrow>
          Inr \<lparr>mean = np_mean_f64 arr, p50 = q50, p95 = q95, p99 = q99,
               min' = lo, max' = hi, count' = int (length arr)\<rparr>)"

definition aggregate_stats_f64 :: "session list \<Rightarrow> string \<Rightarrow> error + stats" where
  "aggregate_stats_f64 files metric_key =
     (case aggregate_metrics files of
        Inl e \<Rightarrow> Inl e
      | Inr (ms, total_samples, total_duration_ms) \<Rightarrow>
          (case ms metric_key of None \<Rightarrow> Inl KeyError | Some arr \<Rightarrow> compute_stats_f64 arr))"

text \<open>The statistics other than the mean.\<close>

definition stats_but_mean :: "stats \<Rightarrow> pyfloat \<times> pyfloat \<times> pyfloat \<times> pyfloat \<times> pyfloat \<times> int" where
  "stats_but_mean s = (p50 s, p95 s, p99 s, min' s, max' s, count' s)"

section \<open>Aggregation\<close>

lemma extend_keys_char:
  "set keys \<subseteq> dom acc \<Longrightarrow> distinct keys \<Longrightarrow>
   extend_keys m keys acc =
     Inr (\<lambda>k. if k \<in> set keys
               then map_option (\<lambda>vs. vs @ (case m k of None \<Rightarrow> [] | Some pts \<Rightarrow> map val pts)) (acc k)
               else acc k)"
proof (induction keys arbitrary: acc)
  case Nil
  then show ?case by simp
next
  case (Cons key keys)
  show ?case
  proof (cases "m key")
    case None
    have "set keys \<subseteq> dom acc" "distinct keys" using Cons.prems by auto
    then show ?thesis using None
      by (auto simp: Cons.IH option.map_ident)
  next
    case (Some pts)
    from Cons.prems obtain vs where vs: "acc key = Some vs" by auto
    have "set keys \<subseteq> dom (acc(key \<mapsto> vs @ map val pts))" using Cons.prems by auto
    moreover have "distinct keys" using Cons.prems by simp
    ultimately have "extend_keys m keys (acc(key \<mapsto> vs @ map val pts)) =
        Inr (\<lambda>k. if k \<in> set keys
               then map_option (\<lambda>vs. vs @ (case m k of None \<Rightarrow> [] | Some pts \<Rightarrow> map val pts))
                      ((acc(key \<mapsto> vs @ map val pts)) k)
               else (acc(key \<mapsto> vs @ map val pts)) k)"
      by (rule Cons.IH)
    then show ?thesis using Some vs Cons.prems
      by auto
  qed
qed

lemma distinct_METRIC_KEYS: "distinct METRIC_KEYS"
  by (simp add: METRIC_KEYS_def)

lemma extend_keys_METRIC:
  assumes d: "dom acc = set METRIC_KEYS"
  shows "extend_keys (get_metrics data) METRIC_KEYS acc =
           Inr (\<lambda>k. map_option (\<lambda>vs. vs @ session_values data k) (acc k))"
proof -
  have n: "acc k = None" if "k \<notin> set METRIC_KEYS" for k
    using that d by (metis domIff)
  show ?thesis
    by (subst extend_keys_char) (auto simp: d distinct_METRIC_KEYS session_values_def n)
qed

lemma aggregate_loop_char:
  "dom acc = set METRIC_KEYS \<Longrightarrow>
   aggregate_loop files (acc, ts, td) =
     Inr (\<lambda>k. map_option (\<lambda>vs. vs @ concat (map (\<lambda>d. session_values d k) files)) (acc k),
          ts + sum_list (map samples_of files),
          td + sum_list (map duration_of files))"
proof (induction files arbitrary: acc ts td)
  case Nil
  then show ?case by (simp add: option.map_ident)
next
  case (Cons data files)
  let ?acc' = "\<lambda>k. map_option (\<lambda>vs. vs @ session_values data k) (acc k)"
  have d: "dom ?acc' = set METRIC_KEYS" using Cons.prems by (simp add: dom_def)
  show ?case
    using Cons.prems
    by (simp add: Let_def extend_keys_METRIC Cons.IH[OF d] samples_of_def duration_of_def
        option.map_comp comp_def algebra_simps)
qed

lemma aggregate_metrics_char:
  "aggregate_metrics files =
     Inr (\<lambda>k. if k \<in> set METRIC_KEYS then Some (concat (map (\<lambda>d. session_values d k) files)) else None,
          sum_list (map samples_of files),
          sum_list (map duration_of files))"
proof -
  let ?init = "map_of (map (\<lambda>k. (k, [])) METRIC_KEYS) :: string \<rightharpoonup> real list"
  have d: "dom ?init = set METRIC_KEYS"
    by (simp add: dom_map_of_conv_image_fst image_image)
  have v: "?init k = (if k \<in> set METRIC_KEYS then Some [] else None)" for k
    by (simp add: map_of_map_restrict restrict_map_def)
  show ?thesis
    unfolding aggregate_metrics_def aggregate_loop_char[OF d]
    by (auto simp: v)
qed

lemma aggregate_char:
  "key \<in> set METRIC_KEYS \<Longrightarrow>
   aggregate files key = Inr (concat (map (\<lambda>d. session_values d key) files))"
  by (simp add: aggregate_def aggregate_metrics_char)

lemma session_values_absent: "get_metrics data key = None \<Longrightarrow> session_values data key = []"
  by (simp add: session_values_def)

text \<open>
  C3, as the specification states it, fails: a file without a summary and with two
  latency samples adds 2 to the sample total but 0, not 2, to the duration total.
\<close>

theorem session_totals_spec_counterexample:
  "session_totals
     [\<lparr>interval = None,
       metrics = Some [''latency'' \<mapsto> [\<lparr>timestamp = 0, val = 10\<rparr>, \<lparr>timestamp = 1000, val = 20\<rparr>]],
       summary = None\<rparr>] = Inr (2, 0) \<and>
   spec_session_totals
     [\<lparr>interval = None,
       metrics = Some [''latency'' \<mapsto> [\<lparr>timestamp = 0, val = 10\<rparr>, \<lparr>timestamp = 1000, val = 20\<rparr>]],
       summary = None\<rparr>] = (2, 2)"
  by (simp add: session_totals_def aggregate_metrics_char samples_of_def duration_of_def
      get_samples_def get_duration_def get_metrics_def spec_session_totals_def latency_length_def)

text \<open>
  C3, amended: aggregation never raises, and the totals are sums over the files. A file
  contributes its \<open>summary.samples\<close> to the sample total, or the length of its latency
  series (0 without one) when the summary or that entry is absent; it contributes its
  \<open>summary.duration\<close> to the duration total, or 0 when the summary or that entry is absent.
\<close>

theorem session_totals_sums:
  "session_totals files =
     Inr (sum_list (map (\<lambda>d. case get_samples d of Some n \<Rightarrow> n | None \<Rightarrow> latency_length d) files),
          sum_list (map (\<lambda>d. case get_duration d of Some n \<Rightarrow> n | None \<Rightarrow> 0) files))"
proof -
  have "samples_of = (\<lambda>d. case get_samples d of Some n \<Rightarrow> n | None \<Rightarrow> latency_length d)"
    by (rule ext) (simp add: samples_of_def latency_length_def split: option.splits)
  moreover have "duration_of = (\<lambda>d. case get_duration d of Some n \<Rightarrow> n | None \<Rightarrow> 0)"
    by (rule ext) (simp add: duration_of_def)
  ultimately show ?thesis
    by (simp add: session_totals_def aggregate_metrics_char)
qed

text \<open>
  C9: a file whose metrics lack a recognized key contributes nothing to that key.
  Aggregation over the files around it succeeds, returns the values of the other files
  in input order, and equals the aggregation without the file.
\<close>

theorem missing_metric_skipped:
  assumes "key \<in> set METRIC_KEYS" and "get_metrics data key = None"
  shows "aggregate (pre @ data # post) key =
           Inr (concat (map (\<lambda>d. session_values d key) pre) @ concat (map (\<lambda>d. session_values d key) post))
         \<and> aggregate (pre @ data # post) key = aggregate (pre @ post) key"
  using assms by (simp add: aggregate_char session_values_absent)

theorem missing_metric_skipped_witness:
  "''jitter'' \<in> set METRIC_KEYS \<and>
   get_metrics \<lparr>interval = None, metrics = Some [''latency'' \<mapsto> [\<lparr>timestamp = 0, val = 10\<rparr>]], summary = None\<rparr> ''jitter'' = None \<and>
   aggregate
     ([\<lparr>interval = None, metrics = Some [''jitter'' \<mapsto> [\<lparr>timestamp = 0, val = 3\<rparr>]], summary = None\<rparr>] @
      \<lparr>interval = None, metrics = Some [''latency'' \<mapsto> [\<lparr>timestamp = 0, val = 10\<rparr>]], summary = None\<rparr> #
      [\<lparr>interval = None, metrics = Some [''jitter'' \<mapsto> [\<lparr>timestamp = 0, val = 4\<rparr>]], summary = None\<rparr>]) ''jitter''
     = Inr [3, 4]"
  using missing_metric_skipped [of "''jitter''"
      "\<lparr>interval = None, metrics = Some [''latency'' \<mapsto> [\<lparr>timestamp = 0, val = 10\<rparr>]], summary = None\<rparr>"
      "[\<lparr>interval = None, metrics = Some [''jitter'' \<mapsto> [\<lparr>timestamp = 0, val = 3\<rparr>]], summary = None\<rparr>]"
      "[\<lparr>interval = None, metrics = Some [''jitter'' \<mapsto> [\<lparr>timestamp = 0, val = 4\<rparr>]], summary = None\<rparr>]"]
  by (simp add: METRIC_KEYS_def get_metrics_def session_values_def)

text \<open>
  C10: for every list of files, aggregation succeeds and the keys of the returned metrics
  are exactly the five recognized ones; a key that no file has is mapped to the empty
  sequence.
\<close>

theorem aggregate_metrics_keys:
  "\<exists>ms total_samples total_duration_ms.
     aggregate_metrics files = Inr (ms, total_samples, total_duration_ms) \<and>
     dom ms = {''latency'', ''jitter'', ''packetLoss'', ''bitrate'', ''frameRate''} \<and>
     (\<forall>k \<in> dom ms. (\<forall>d \<in> set files. get_metrics d k = None) \<longrightarrow> ms k = Some [])"
proof -
  have "concat (map (\<lambda>d. session_values d k) files) = []"
    if "\<forall>d \<in> set files. get_metrics d k = None" for k
    using that by (simp add: session_values_absent)
  then show ?thesis
    by (auto simp: aggregate_metrics_char dom_def METRIC_KEYS_def)
qed

theorem aggregate_metrics_keys_witness:
  "\<exists>ms total_samples total_duration_ms.
     aggregate_metrics [] = Inr (ms, total_samples, total_duration_ms) \<and>
     dom ms = {''latency'', ''jitter'', ''packetLoss'', ''bitrate'', ''frameRate''} \<and>
     ''latency'' \<in> dom ms \<and> (\<forall>d \<in> set ([] :: session list). get_metrics d ''latency'' = None) \<and>
     ms ''latency'' = Some []"
  using aggregate_metrics_keys [of "[]"] by auto

section \<open>Comparison of two tests\<close>

text \<open>
  C1, as the specification states it, fails: with no baseline summary the baseline mean
  reads as 0 and the percent change is the number 0, which is printed as +0.00%.
\<close>

theorem percent_change_zero_counterexample:
  "map_sum id pct
     (compare_metric
        \<lparr>interval = None, metrics = None, summary = None\<rparr>
        \<lparr>interval = None, metrics = None,
         summary = Some \<lparr>samples = None, duration = None,
                         metric_stats = [''latency'' \<mapsto> [''mean'' \<mapsto> 5]]\<rparr>\<rparr>
        ''latency'') = Inr 0"
  by (simp add: compare_metric_def get_mean_def)

lemma compare_metric_char:
  "compare_metric baseline e2ee m =
     Inr \<lparr>metric = m, b_mean = get_mean baseline m, e_mean = get_mean e2ee m,
          diff = get_mean e2ee m - get_mean baseline m,
          pct = (if 0 < get_mean baseline m
                 then (get_mean e2ee m - get_mean baseline m) / get_mean baseline m * 100
                 else 0)\<rparr>"
  by (simp add: compare_metric_def py_truediv_def Let_def)

lemma compare_loop_total:
  "\<exists>cs. compare_loop baseline e2ee names = Inr cs \<and> map metric cs = names"
  by (induction names) (auto simp: compare_metric_char)

lemma compare_two_tests_total:
  "\<exists>cs. compare_two_tests baseline e2ee = Inr cs \<and>
        map metric cs = [''latency'', ''jitter'', ''packetLoss'', ''bitrate'']"
  unfolding compare_two_tests_def by (rule compare_loop_total)

text \<open>
  C1, amended: the comparison of a metric never raises. An absent baseline mean reads
  as 0; when the baseline mean is not greater than 0 the percent change is the number 0
  and no division is evaluated, otherwise it is the difference divided by the baseline
  mean, times 100.
\<close>

theorem compare_metric_guarded:
  "compare_metric baseline e2ee m =
     Inr \<lparr>metric = m, b_mean = get_mean baseline m, e_mean = get_mean e2ee m,
          diff = get_mean e2ee m - get_mean baseline m,
          pct = (if 0 < get_mean baseline m
                 then (get_mean e2ee m - get_mean baseline m) / get_mean baseline m * 100
                 else 0)\<rparr>"
  by (rule compare_metric_char)

section \<open>Statistics\<close>

text \<open>
  C2, as the specification states it, fails: the statistics of an empty array are the
  float NaN, and \<open>build_bar_data\<close> stores them unchecked in a float array of bar heights.
\<close>

theorem empty_stats_nan_counterexample:
  "build_bar_data [''latency'' \<mapsto> []] [''latency'' \<mapsto> [1]] ''latency'' =
     Inr ([NaN, NaN, NaN], [Fin 1, Fin 1, Fin 1])"
  by (simp add: build_bar_data_def compute_stats_def np_quantile_def np_mean_def np_sum_def lerp_def)

text \<open>
  C2, amended: on the empty array \<open>compute_stats\<close> does not raise and returns count 0
  and the float NaN in each of mean, p50, p95, p99, min and max.
\<close>

theorem compute_stats_empty:
  "compute_stats [] =
     Inr \<lparr>mean = NaN, p50 = NaN, p95 = NaN, p99 = NaN, min' = NaN, max' = NaN, count' = 0\<rparr>"
  by (simp add: compute_stats_def)

text \<open>
  C8: the statistics of the one-element array \<open>[v]\<close> are all \<open>v\<close>, with count 1.
\<close>

theorem compute_stats_singleton:
  "compute_stats [v] =
     Inr \<lparr>mean = Fin v, p50 = Fin v, p95 = Fin v, p99 = Fin v, min' = Fin v, max' = Fin v, count' = 1\<rparr>"
  by (simp add: compute_stats_def np_quantile_def np_mean_def np_sum_def lerp_def)

section \<open>Elapsed time of a series\<close>






section \<open>Quantiles, extrema and the mean\<close>

lemma lerp_eq: "lerp a b t = a + (b - a) * t"
  by (simp add: lerp_def algebra_simps)

lemma quantile_body:
  assumes "h \<le> real m"
  shows "lerp (a ! (if real m \<le> h then m else nat \<lfloor>h\<rfloor>))
              (a ! (if real m \<le> h then m else nat \<lfloor>h\<rfloor> + 1))
              (h - real_of_int \<lfloor>h\<rfloor>) = interp a h"
proof (cases "real m \<le> h")
  case True
  with assms have eq: "h = real m" by simp
  have "\<lfloor>real m\<rfloor> = int m" by simp
  then show ?thesis
    unfolding eq by (simp add: interp_def lerp_eq)
next
  case False
  then show ?thesis
    by (simp add: interp_def lerp_eq Let_def)
qed

lemma np_quantile_spec:
  assumes "arr \<noteq> []" and "0 \<le> q" and "q \<le> 1"
  shows "np_quantile arr q = Inr (Fin (spec_quantile arr q))"
proof -
  have h_le: "real (length arr - 1) * q \<le> real (length arr - 1)"
    using assms by (simp add: mult_left_le)
  have "np_quantile arr q =
      Inr (Fin (lerp (sort arr ! (if real (length arr - 1) \<le> real (length arr - 1) * q
                                  then length arr - 1 else nat \<lfloor>real (length arr - 1) * q\<rfloor>))
                     (sort arr ! (if real (length arr - 1) \<le> real (length arr - 1) * q
                                  then length arr - 1 else nat \<lfloor>real (length arr - 1) * q\<rfloor> + 1))
                     (real (length arr - 1) * q - real_of_int \<lfloor>real (length arr - 1) * q\<rfloor>)))"
    using assms by (simp add: np_quantile_def Let_def del: of_nat_diff)
  also have "\<dots> = Inr (Fin (interp (sort arr) (real (length arr - 1) * q)))"
    by (simp only: quantile_body[OF h_le])
  finally show ?thesis
    by (simp add: spec_quantile_def mult.commute)
qed



lemma foldl_min: "foldl min a xs = Min (insert a (set xs))" for a :: real
proof (induction xs arbitrary: a)
  case Nil
  then show ?case by simp
next
  case (Cons x xs)
  have "Min (insert (min a x) (set xs)) = Min (insert a (insert x (set xs)))"
    by (cases "set xs = {}") (simp_all add: min.assoc)
  then show ?case by (simp add: Cons.IH)
qed

lemma foldl_max: "foldl max a xs = Max (insert a (set xs))" for a :: real
proof (induction xs arbitrary: a)
  case Nil
  then show ?case by simp
next
  case (Cons x xs)
  have "Max (insert (max a x) (set xs)) = Max (insert a (insert x (set xs)))"
    by (cases "set xs = {}") (simp_all add: max.assoc)
  then show ?case by (simp add: Cons.IH)
qed

lemma np_min_eq: "xs \<noteq> [] \<Longrightarrow> np_min xs = Inr (Fin (Min (set xs)))"
  by (cases xs) (simp_all add: foldl_min)

lemma np_max_eq: "xs \<noteq> [] \<Longrightarrow> np_max xs = Inr (Fin (Max (set xs)))"
  by (cases xs) (simp_all add: foldl_max)













lemma sort_mset_cong: "mset xs = mset ys \<Longrightarrow> sort xs = sort ys" for xs :: "real list"
  by (rule properties_for_sort) simp_all

lemma mset_aggregate:
  assumes "mset files = mset files'"
  shows "mset (concat (map f files)) = mset (concat (map f files'))"
proof -
  have "mset (concat (map f xs)) = (\<Sum>x\<in>#mset xs. mset (f x))" for xs :: "'a list"
    by (induction xs) simp_all
  then show ?thesis using assms by simp
qed

section \<open>Float64 evaluation of the mean\<close>

lemma f64_round_binade:
  assumes lo: "1 / 2 ^ k \<le> \<bar>x\<bar>" and hi: "\<bar>x\<bar> < 2 / 2 ^ k" and k: "k \<le> 1022"
  shows "f64_round x = real_of_int (round_half_even (x * 2 ^ (k + 52))) / 2 ^ (k + 52)"
proof -
  have pos: "0 < \<bar>x\<bar>" using lo by (smt (verit) divide_pos_pos zero_less_power zero_less_one)
  have p: "2 powr real_of_int (- int k) = 1 / 2 ^ k"
    by (simp add: powr_minus_divide powr_realpow)
  have "2 powr (real_of_int (- int k) + 1) = 2 powr real_of_int (- int k) * 2 powr (1::real)"
    by (rule powr_add)
  then have p1: "2 powr (real_of_int (- int k) + 1) = 2 / 2 ^ k"
    unfolding p by simp
  have "\<lfloor>log 2 \<bar>x\<bar>\<rfloor> = - int k"
    using pos lo hi p p1 by (subst floor_log_eq_powr_iff) auto
  then have e: "f64_exponent x = - int k" using k by (simp add: f64_exponent_def)
  have "real_of_int (- int k - 52) = - real (k + 52)" by simp
  then have s: "2 powr real_of_int (- int k - 52) = 1 / 2 ^ (k + 52)"
    by (simp only: powr_minus_divide powr_realpow zero_less_numeral)
  from pos have nz: "x \<noteq> 0" by auto
  have "f64_round x =
      real_of_int (round_half_even (x / 2 powr real_of_int (- int k - 52)))
        * 2 powr real_of_int (- int k - 52)"
    by (simp only: f64_round_def e nz if_False)
  also have "\<dots> = real_of_int (round_half_even (x / (1 / 2 ^ (k + 52)))) * (1 / 2 ^ (k + 52))"
    by (simp only: s)
  finally show ?thesis by simp
qed

lemma pairwise_sum_short: "length a < 8 \<Longrightarrow> pairwise_sum a = foldl f64_add 0 a"
  by (subst pairwise_sum.simps) simp

lemma np_mean_f64_three:
  "np_mean_f64 [x, y, z] =
     Fin (f64_round (f64_round (f64_round (f64_round (f64_round x + y) + z)) / 3))"
  by (simp add: np_mean_f64_def np_sum_f64_def pairwise_sum_short f64_add_def)

text \<open>
  The roundings that the two examples below go through, each settled in its binade:
  3602879701896397 / 2^55 is the float64 value nearest 0.1, twice that the one nearest
  0.2, and 5404319552844595 / 2^54 the one nearest 0.3.
\<close>

lemma r_a: "f64_round (3602879701896397 / 36028797018963968) = 3602879701896397 / 36028797018963968"
  by (subst f64_round_binade[where k=4]) (simp_all add: round_half_even_def)


lemma r_3a: "f64_round (10808639105689191 / 36028797018963968) = 1351079888211149 / 4503599627370496"
  by (subst f64_round_binade[where k=2]) (simp_all add: round_half_even_def)



lemma r_6: "f64_round (10808639105689191 / 18014398509481984) = 1351079888211149 / 2251799813685248"
  by (subst f64_round_binade[where k=1]) (simp_all add: round_half_even_def)

lemma r_7: "f64_round (1351079888211149 / 2251799813685248) = 1351079888211149 / 2251799813685248"
  by (subst f64_round_binade[where k=1]) (simp_all add: round_half_even_def)

lemma r_8: "f64_round (1351079888211149 / 6755399441055744) = 7205759403792795 / 36028797018963968"
  by (subst f64_round_binade[where k=3]) (simp_all add: round_half_even_def)

lemma r_c: "f64_round (5404319552844595 / 18014398509481984) = 5404319552844595 / 18014398509481984"
  by (subst f64_round_binade[where k=2]) (simp_all add: round_half_even_def)

lemma r_half: "f64_round (1 / 2) = 1 / 2"
  by (subst f64_round_binade[where k=1]) (simp_all add: round_half_even_def)

lemma r_11: "f64_round (21617278211378381 / 36028797018963968) = 5404319552844595 / 9007199254740992"
  by (subst f64_round_binade[where k=1]) (simp_all add: round_half_even_def)

lemma r_12: "f64_round (5404319552844595 / 9007199254740992) = 5404319552844595 / 9007199254740992"
  by (subst f64_round_binade[where k=1]) (simp_all add: round_half_even_def)

lemma r_13: "f64_round (5404319552844595 / 27021597764222976) = 7205759403792793 / 36028797018963968"
  by (subst f64_round_binade[where k=3]) (simp_all add: round_half_even_def)


lemma mean_abc:
  "np_mean_f64 [3602879701896397 / 2 ^ 55, 3602879701896397 / 2 ^ 54, 5404319552844595 / 2 ^ 54]
     = Fin (7205759403792795 / 2 ^ 55)"
  by (simp add: np_mean_f64_three r_a r_3a r_6 r_7 r_8)

lemma mean_cba:
  "np_mean_f64 [5404319552844595 / 2 ^ 54, 3602879701896397 / 2 ^ 54, 3602879701896397 / 2 ^ 55]
     = Fin (7205759403792793 / 2 ^ 55)"
  by (simp add: np_mean_f64_three r_c r_half r_11 r_12 r_13)

lemma compute_stats_f64_char:
  assumes "values \<noteq> []"
  shows "compute_stats_f64 values =
     Inr \<lparr>mean = np_mean_f64 values,
          p50 = Fin (spec_quantile values (50 / 100)),
          p95 = Fin (spec_quantile values (95 / 100)),
          p99 = Fin (spec_quantile values (99 / 100)),
          min' = Fin (Min (set values)),
          max' = Fin (Max (set values)),
          count' = int (length values)\<rparr>"
  using assms
  by (simp add: compute_stats_f64_def np_quantile_spec np_min_eq np_max_eq)

lemma aggregate_stats_f64_char:
  "key \<in> set METRIC_KEYS \<Longrightarrow>
   aggregate_stats_f64 files key =
     compute_stats_f64 (concat (map (\<lambda>d. session_values d key) files))"
  by (simp add: aggregate_stats_f64_def aggregate_metrics_char)




lemma stats_but_mean_mset:
  assumes "mset xs = mset ys"
  shows "\<exists>s s'. compute_stats_f64 xs = Inr s \<and> compute_stats_f64 ys = Inr s' \<and>
                stats_but_mean s = stats_but_mean s'"
proof (cases "xs = []")
  case True
  with assms have "ys = []" by simp
  with True show ?thesis by (simp add: compute_stats_f64_def)
next
  case False
  with assms have ne: "ys \<noteq> []" by auto
  have len: "length xs = length ys" using assms by (rule mset_eq_length)
  have st: "set xs = set ys" using assms by (rule mset_eq_setD)
  have q: "spec_quantile xs q = spec_quantile ys q" for q
    by (simp add: spec_quantile_def sort_mset_cong[OF assms] len)
  show ?thesis
    by (simp add: compute_stats_f64_char[OF False] compute_stats_f64_char[OF ne]
        stats_but_mean_def len st q)
qed

text \<open>
  C5, as the specification states it, fails: three files with the latency samples 0.1,
  0.2 and 0.3 (the nearest float64 values) have the mean 0.20000000000000004 in this
  order and 0.19999999999999998 in the reverse order.
\<close>

theorem mean_order_dependent_counterexample:
  "mset [\<lparr>interval = None, metrics = Some [''latency'' \<mapsto> [\<lparr>timestamp = 0, val = 3602879701896397 / 2 ^ 55\<rparr>]], summary = None\<rparr>,
         \<lparr>interval = None, metrics = Some [''latency'' \<mapsto> [\<lparr>timestamp = 0, val = 3602879701896397 / 2 ^ 54\<rparr>]], summary = None\<rparr>,
         \<lparr>interval = None, metrics = Some [''latency'' \<mapsto> [\<lparr>timestamp = 0, val = 5404319552844595 / 2 ^ 54\<rparr>]], summary = None\<rparr>]
   = mset [\<lparr>interval = None, metrics = Some [''latency'' \<mapsto> [\<lparr>timestamp = 0, val = 5404319552844595 / 2 ^ 54\<rparr>]], summary = None\<rparr>,
           \<lparr>interval = None, metrics = Some [''latency'' \<mapsto> [\<lparr>timestamp = 0, val = 3602879701896397 / 2 ^ 54\<rparr>]], summary = None\<rparr>,
           \<lparr>interval = None, metrics = Some [''latency'' \<mapsto> [\<lparr>timestamp = 0, val = 3602879701896397 / 2 ^ 55\<rparr>]], summary = None\<rparr>]
   \<and> map_sum id mean
        (aggregate_stats_f64
           [\<lparr>interval = None, metrics = Some [''latency'' \<mapsto> [\<lparr>timestamp = 0, val = 3602879701896397 / 2 ^ 55\<rparr>]], summary = None\<rparr>,
            \<lparr>interval = None, metrics = Some [''latency'' \<mapsto> [\<lparr>timestamp = 0, val = 3602879701896397 / 2 ^ 54\<rparr>]], summary = None\<rparr>,
            \<lparr>interval = None, metrics = Some [''latency'' \<mapsto> [\<lparr>timestamp = 0, val = 5404319552844595 / 2 ^ 54\<rparr>]], summary = None\<rparr>]
           ''latency'')
      = Inr (Fin (7205759403792795 / 2 ^ 55))
   \<and> map_sum id mean
        (aggregate_stats_f64
           [\<lparr>interval = None, metrics = Some [''latency'' \<mapsto> [\<lparr>timestamp = 0, val = 5404319552844595 / 2 ^ 54\<rparr>]], summary = None\<rparr>,
            \<lparr>interval = None, metrics = Some [''latency'' \<mapsto> [\<lparr>timestamp = 0, val = 3602879701896397 / 2 ^ 54\<rparr>]], summary = None\<rparr>,
            \<lparr>interval = None, metrics = Some [''latency'' \<mapsto> [\<lparr>timestamp = 0, val = 3602879701896397 / 2 ^ 55\<rparr>]], summary = None\<rparr>]
           ''latency'')
      = Inr (Fin (7205759403792793 / 2 ^ 55))"
proof -
  have abc: "np_mean_f64 [3602879701896397 / 36028797018963968, 3602879701896397 / 18014398509481984,
      5404319552844595 / 18014398509481984] = Fin (7205759403792795 / 36028797018963968)"
    using mean_abc by simp
  have cba: "np_mean_f64 [5404319552844595 / 18014398509481984, 3602879701896397 / 18014398509481984,
      3602879701896397 / 36028797018963968] = Fin (7205759403792793 / 36028797018963968)"
    using mean_cba by simp
  have k: "''latency'' \<in> set METRIC_KEYS" by (simp add: METRIC_KEYS_def)
  show ?thesis
    by (simp add: aggregate_stats_f64_char[OF k] session_values_def get_metrics_def
        compute_stats_f64_char abc cba)
qed

text \<open>
  C5, amended: for two lists of files that are permutations of each other and a
  recognized metric, both aggregations succeed, their values agree as multisets, and
  the statistics of the two aggregates, with the mean in float64, agree in count, p50,
  p95, p99, min and max; the same holds for any two arrays with the same multiset of
  values. The mean is left out: it depends on the order in which float64 adds the values.
\<close>

theorem order_statistics_order_independent:
  "(mset files = mset files' \<and> key \<in> set METRIC_KEYS \<longrightarrow>
      (\<exists>vs vs' s s'. aggregate files key = Inr vs \<and> aggregate files' key = Inr vs' \<and>
                 mset vs = mset vs' \<and>
                 aggregate_stats_f64 files key = Inr s \<and> aggregate_stats_f64 files' key = Inr s' \<and>
                 stats_but_mean s = stats_but_mean s'))
   \<and> (mset xs = mset ys \<longrightarrow>
      (\<exists>s s'. compute_stats_f64 xs = Inr s \<and> compute_stats_f64 ys = Inr s' \<and>
               stats_but_mean s = stats_but_mean s'))"
proof (intro conjI impI)
  assume a: "mset files = mset files' \<and> key \<in> set METRIC_KEYS"
  let ?vs = "concat (map (\<lambda>d. session_values d key) files)"
  let ?vs' = "concat (map (\<lambda>d. session_values d key) files')"
  have m: "mset ?vs = mset ?vs'" using a by (intro mset_aggregate) simp
  from stats_but_mean_mset[OF m] obtain s s' where
    s: "compute_stats_f64 ?vs = Inr s" "compute_stats_f64 ?vs' = Inr s'"
       "stats_but_mean s = stats_but_mean s'"
    by blast
  have "aggregate files key = Inr ?vs" "aggregate files' key = Inr ?vs'"
    using a by (simp_all add: aggregate_char)
  moreover have "aggregate_stats_f64 files key = Inr s" "aggregate_stats_f64 files' key = Inr s'"
    using a s by (simp_all add: aggregate_stats_f64_char)
  ultimately show "\<exists>vs vs' s s'. aggregate files key = Inr vs \<and> aggregate files' key = Inr vs' \<and>
                 mset vs = mset vs' \<and>
                 aggregate_stats_f64 files key = Inr s \<and> aggregate_stats_f64 files' key = Inr s' \<and>
                 stats_but_mean s = stats_but_mean s'"
    using m s(3) by blast
next
  assume "mset xs = mset ys"
  then show "\<exists>s s'. compute_stats_f64 xs = Inr s \<and> compute_stats_f64 ys = Inr s' \<and>
               stats_but_mean s = stats_but_mean s'"
    by (rule stats_but_mean_mset)
qed

theorem order_statistics_order_independent_witness:
  "mset [\<lparr>interval = None, metrics = Some [''latency'' \<mapsto> [\<lparr>timestamp = 0, val = 10\<rparr>, \<lparr>timestamp = 1, val = 20\<rparr>]], summary = None\<rparr>,
         \<lparr>interval = None, metrics = Some [''latency'' \<mapsto> [\<lparr>timestamp = 2, val = 30\<rparr>]], summary = None\<rparr>]
   = mset [\<lparr>interval = None, metrics = Some [''latency'' \<mapsto> [\<lparr>timestamp = 2, val = 30\<rparr>]], summary = None\<rparr>,
           \<lparr>interval = None, metrics = Some [''latency'' \<mapsto> [\<lparr>timestamp = 0, val = 10\<rparr>, \<lparr>timestamp = 1, val = 20\<rparr>]], summary = None\<rparr>]
   \<and> ''latency'' \<in> set METRIC_KEYS
   \<and> (\<exists>vs vs' s s'.
        aggregate [\<lparr>interval = None, metrics = Some [''latency'' \<mapsto> [\<lparr>timestamp = 0, val = 10\<rparr>, \<lparr>timestamp = 1, val = 20\<rparr>]], summary = None\<rparr>,
                   \<lparr>interval = None, metrics = Some [''latency'' \<mapsto> [\<lparr>timestamp = 2, val = 30\<rparr>]], summary = None\<rparr>] ''latency'' = Inr vs \<and>
        aggregate [\<lparr>interval = None, metrics = Some [''latency'' \<mapsto> [\<lparr>timestamp = 2, val = 30\<rparr>]], summary = None\<rparr>,
                   \<lparr>interval = None, metrics = Some [''latency'' \<mapsto> [\<lparr>timestamp = 0, val = 10\<rparr>, \<lparr>timestamp = 1, val = 20\<rparr>]], summary = None\<rparr>] ''latency'' = Inr vs' \<and>
        mset vs = mset vs' \<and>
        aggregate_stats_f64 [\<lparr>interval = None, metrics = Some [''latency'' \<mapsto> [\<lparr>timestamp = 0, val = 10\<rparr>, \<lparr>timestamp = 1, val = 20\<rparr>]], summary = None\<rparr>,
                   \<lparr>interval = None, metrics = Some [''latency'' \<mapsto> [\<lparr>timestamp = 2, val = 30\<rparr>]], summary = None\<rparr>] ''latency'' = Inr s \<and>
        aggregate_stats_f64 [\<lparr>interval = None, metrics = Some [''latency'' \<mapsto> [\<lparr>timestamp = 2, val = 30\<rparr>]], summary = None\<rparr>,
                   \<lparr>interval = None, metrics = Some [''latency'' \<mapsto> [\<lparr>timestamp = 0, val = 10\<rparr>, \<lparr>timestamp = 1, val = 20\<rparr>]], summary = None\<rparr>] ''latency'' = Inr s' \<and>
        stats_but_mean s = stats_but_mean s')
   \<and> mset [1, 2 :: real] = mset [2, 1]
   \<and> (\<exists>s s'. compute_stats_f64 [1, 2] = Inr s \<and> compute_stats_f64 [2, 1] = Inr s' \<and>
              stats_but_mean s = stats_but_mean s')"
  using order_statistics_order_independent [of
      "[\<lparr>interval = None, metrics = Some [''latency'' \<mapsto> [\<lparr>timestamp = 0, val = 10\<rparr>, \<lparr>timestamp = 1, val = 20\<rparr>]], summary = None\<rparr>,
        \<lparr>interval = None, metrics = Some [''latency'' \<mapsto> [\<lparr>timestamp = 2, val = 30\<rparr>]], summary = None\<rparr>]"
      "[\<lparr>interval = None, metrics = Some [''latency'' \<mapsto> [\<lparr>timestamp = 2, val = 30\<rparr>]], summary = None\<rparr>,
        \<lparr>interval = None, metrics = Some [''latency'' \<mapsto> [\<lparr>timestamp = 0, val = 10\<rparr>, \<lparr>timestamp = 1, val = 20\<rparr>]], summary = None\<rparr>]"
      "''latency''" "[1, 2]" "[2, 1]"]
  by (simp add: METRIC_KEYS_def)

end
